theory Spec2Isabelle
  imports Main
begin

section \<open>Text\<close>

text \<open>
  A Python \<open>str\<close> is modelled as a \<open>string\<close>, a list of characters. The model covers
  ASCII text: white space and the case mappings are those of Python on the code points
  below 128, where \<open>lower\<close> and \<open>upper\<close> map a character to one character. Characters
  outside ASCII are left alone by the case mappings and are not white space.
\<close>

definition whitespace :: string where
  "whitespace =
     [CHR 0x09, CHR 0x0A, CHR 0x0B, CHR 0x0C, CHR 0x0D,
      CHR 0x1C, CHR 0x1D, CHR 0x1E, CHR 0x1F, CHR '' '']"

definition ascii_lowercase :: string where
  "ascii_lowercase = ''abcdefghijklmnopqrstuvwxyz''"

definition ascii_uppercase :: string where
  "ascii_uppercase = ''ABCDEFGHIJKLMNOPQRSTUVWXYZ''"

definition isspace :: "char \<Rightarrow> bool" where
  "isspace c = (c \<in> set whitespace)"

definition lower_char :: "char \<Rightarrow> char" where
  "lower_char c =
     (case map_of (zip ascii_uppercase ascii_lowercase) c of Some d \<Rightarrow> d | None \<Rightarrow> c)"

definition upper_char :: "char \<Rightarrow> char" where
  "upper_char c =
     (case map_of (zip ascii_lowercase ascii_uppercase) c of Some d \<Rightarrow> d | None \<Rightarrow> c)"

text \<open>\<open>s.strip()\<close>: white space is dropped at both ends.\<close>

definition strip :: "string \<Rightarrow> string" where
  "strip s = rev (dropWhile isspace (rev (dropWhile isspace s)))"

text \<open>\<open>s.lower()\<close>.\<close>

definition lower :: "string \<Rightarrow> string" where
  "lower s = map lower_char s"

text \<open>\<open>s.startswith(q)\<close> and \<open>s.endswith(q)\<close>.\<close>

definition startswith :: "string \<Rightarrow> string \<Rightarrow> bool" where
  "startswith s q = (take (length q) s = q)"

definition endswith :: "string \<Rightarrow> string \<Rightarrow> bool" where
  "endswith s q = (length q \<le> length s \<and> drop (length s - length q) s = q)"

text \<open>\<open>w in s\<close> on strings: \<open>w\<close> occurs in \<open>s\<close> as a substring.\<close>

fun contains :: "string \<Rightarrow> string \<Rightarrow> bool" where
  "contains w [] = (w = [])"
| "contains w (c # cs) = (startswith (c # cs) w \<or> contains w cs)"

text \<open>
  \<open>s.replace(old, new)\<close>: every occurrence of \<open>old\<close> is replaced, scanning from the
  left and resuming after each occurrence. For an empty \<open>old\<close> Python puts \<open>new\<close>
  before every character and at the end.
\<close>

fun replace_scan :: "string \<Rightarrow> string \<Rightarrow> string \<Rightarrow> string" where
  "replace_scan old new [] = []"
| "replace_scan old new (c # cs) =
     (if startswith (c # cs) old
      then new @ replace_scan old new (drop (length old - 1) cs)
      else c # replace_scan old new cs)"

definition replace :: "string \<Rightarrow> string \<Rightarrow> string \<Rightarrow> string" where
  "replace s old new =
     (if old = [] then new @ concat (map (\<lambda>c. c # new) s) else replace_scan old new s)"

section \<open>The correction dictionary and the prompts\<close>

text \<open>
  \<open>COMMON_CORRECTIONS\<close> is a dict literal with distinct keys, iterated in insertion
  order: an association list in the order of the source.
\<close>

definition COMMON_CORRECTIONS :: "(string \<times> string) list" where
  "COMMON_CORRECTIONS =
     [(''i am'', ''I am''),
      (''i'', ''I''),
      (''dont'', ''don't''),
      (''doesnt'', ''doesn't''),
      (''cant'', ''can't''),
      (''wont'', ''won't''),
      (''im'', ''I'm''),
      (''u'', ''you''),
      (''ur'', ''your''),
      (''r'', ''are''),
      (''there english'', ''their English''),
      (''there are'', ''there are''),
      (''they is'', ''they are''),
      (''he have'', ''he has''),
      (''she have'', ''she has''),
      (''i has'', ''I have'')]"

definition END_PROMPTS :: "string list" where
  "END_PROMPTS =
     [''Tell me about your day in three sentences.'',
      ''Describe your favorite teacher and why you like them.'',
      ''What is your hobby? Explain it like you are teaching a friend.'',
      ''Make a short plan for tomorrow using future tense.'']"

section \<open>basic_improve\<close>

text \<open>The suggestion appended for a correction that matched; \<open>quoted\<close> puts a text
  between two apostrophes, as the format strings of the source do.\<close>

definition quoted :: "string \<Rightarrow> string" where
  "quoted s = CHR 0x27 # s @ [CHR 0x27]"

definition correction_suggestion :: "string \<Rightarrow> string \<Rightarrow> string" where
  "correction_suggestion right wrong =
     ''Consider using '' @ quoted right @ '' instead of '' @ quoted wrong @ ''.''"

text \<open>
  The loop over the dictionary: \<open>improved\<close> and \<open>suggestions\<close> are the two variables it
  updates, so a later rule sees the text the earlier ones produced.
\<close>

fun apply_corrections ::
  "(string \<times> string) list \<Rightarrow> string \<Rightarrow> string list \<Rightarrow> string \<times> string list" where
  "apply_corrections [] improved suggestions = (improved, suggestions)"
| "apply_corrections ((wrong, right) # rest) improved suggestions =
     (if contains wrong improved
      then apply_corrections rest (replace improved wrong right)
             (suggestions @ [correction_suggestion right wrong])
      else apply_corrections rest improved suggestions)"

definition question_leads :: "string list" where
  "question_leads =
     [''what'', ''why'', ''how'', ''where'', ''when'', ''who'', ''which'',
      ''do '', ''does '', ''is '', ''are '', ''can '', ''could '', ''would '']"

definition encouragement :: string where
  "encouragement = ''Great job! Your sentence looks good. Try to add more detail.''"

text \<open>
  The three steps after the loop, each one statement of the source:
  \<^verbatim>\<open>if improved: improved = improved[0].upper() + improved[1:]\<close>,
  \<^verbatim>\<open>if improved and improved[-1] not in ".?!": improved += "."\<close>, and the test of
  the lead words with \<^verbatim>\<open>if improved.endswith("."): improved = improved[:-1] + "?"\<close>.
\<close>

definition capitalize_first :: "string \<Rightarrow> string" where
  "capitalize_first improved =
     (case improved of [] \<Rightarrow> [] | c # cs \<Rightarrow> upper_char c # cs)"

definition add_period :: "string \<Rightarrow> string" where
  "add_period improved =
     (if improved \<noteq> [] \<and> last improved \<notin> set ''.?!'' then improved @ ''.'' else improved)"

text \<open>\<^verbatim>\<open>any(improved.lower().startswith(q) for q in [...])\<close>, on the list of the source.\<close>

definition starts_with_question_lead :: "string \<Rightarrow> bool" where
  "starts_with_question_lead improved = list_ex (startswith (lower improved)) question_leads"

definition question_mark :: "string \<Rightarrow> string" where
  "question_mark improved =
     (if starts_with_question_lead improved
      then (if endswith improved ''.'' then butlast improved @ ''?'' else improved)
      else improved)"

text \<open>
  The function itself. The encouragement is appended when the improved text equals
  \<open>original\<close>, the trimmed input before it was lowered.
\<close>

definition basic_improve :: "string \<Rightarrow> string \<times> string list" where
  "basic_improve text =
     (let original = strip text;
          lowered = lower original;
          (improved, suggestions) = apply_corrections COMMON_CORRECTIONS lowered [];
          improved = capitalize_first improved;
          improved = add_period improved;
          improved = question_mark improved
      in (improved,
          if improved = original then suggestions @ [encouragement] else suggestions))"

section \<open>The tutor endpoint\<close>

record TutorRequest =
  message :: string
  level :: "string option"

record TutorResponse =
  reply :: string
  suggestions :: "string list"
  prompt :: "string option"

text \<open>
  The request model gives \<open>level\<close> the default \<open>"beginner"\<close>: a body without the field
  (\<open>None\<close>) gets it, a body with the field keeps what it sent, \<open>null\<close> (\<open>Some None\<close>) or
  a string.
\<close>

definition TutorRequest_of_body :: "string \<Rightarrow> string option option \<Rightarrow> TutorRequest" where
  "TutorRequest_of_body msg lvl =
     \<lparr>message = msg, level = (case lvl of None \<Rightarrow> Some ''beginner'' | Some l \<Rightarrow> l)\<rparr>"

text \<open>The three replies of the source, each a format string.\<close>

definition reply_beginner :: "string \<Rightarrow> string \<Rightarrow> string" where
  "reply_beginner user_text improved =
     ''You said: '' @ quoted user_text @ ''. Here is a clearer version: '' @ quoted improved
       @ ''. '' @ ''Well done! Try to use full sentences and simple tenses.''"

definition reply_advanced :: "string \<Rightarrow> string" where
  "reply_advanced improved =
     ''Your idea is good. A more natural phrasing is: '' @ quoted improved
       @ ''. '' @ ''Consider adding specific details and varied vocabulary.''"

definition reply_other :: "string \<Rightarrow> string" where
  "reply_other improved =
     ''Nice! You can say: '' @ quoted improved
       @ ''. '' @ ''Keep practicing your rhythm and pronunciation.''"

definition empty_message_response :: TutorResponse where
  "empty_message_response =
     \<lparr>reply = ''I didn't hear anything. Try saying a simple sentence about your day.'',
      suggestions = [''Speak slowly and clearly.'', ''Start with: '' @ quoted ''Today I ...''],
      prompt = Some (''Say: '' @ quoted ''Today I woke up early and ...'')\<rparr>"

definition fallback_tip :: string where
  "fallback_tip = ''Great effort! Add one more sentence to continue.''"

text \<open>
  \<open>tutor\<close>, with the improvement function it calls as the parameter \<open>improve\<close> and the
  index drawn by \<open>random.choice\<close> as the parameter \<open>pick\<close>. The endpoint itself is
  \<open>tutor_with basic_improve\<close>.
\<close>

definition tutor_with ::
  "(string \<Rightarrow> string \<times> string list) \<Rightarrow> TutorRequest \<Rightarrow> nat \<Rightarrow> TutorResponse" where
  "tutor_with improve req pick =
     (let user_text = strip (message req) in
      if user_text = [] then empty_message_response
      else
        let (improved, tips) = improve user_text;
            reply =
              (if level req = Some ''beginner'' then reply_beginner user_text improved
               else if level req = Some ''advanced'' then reply_advanced improved
               else reply_other improved)
        in \<lparr>reply = reply,
            suggestions = (if tips = [] then [fallback_tip] else tips),
            prompt = Some (END_PROMPTS ! (pick mod length END_PROMPTS))\<rparr>)"

definition tutor :: "TutorRequest \<Rightarrow> nat \<Rightarrow> TutorResponse" where
  "tutor = tutor_with basic_improve"

section \<open>The diagnostic endpoint\<close>

text \<open>
  What the endpoint meets outside the program is a parameter: the outcome of
  \<open>from database import db\<close> and the process environment. An exception is a value
  carrying its message \<open>str(e)\<close>; \<open>ImportError\<close> is the class the first handler names,
  \<open>Exception\<close> stands for every other subclass of \<open>Exception\<close>. Signals that are
  no subclass of \<open>Exception\<close>, such as \<open>KeyboardInterrupt\<close>, are not modelled.
\<close>

datatype exn = ImportError string | Exception string

record db_handle =
  db_name :: "string option"
  list_collection_names :: "exn + string list"

datatype import_outcome = ImportRaises exn | Imported "db_handle option"

record response =
  backend :: string
  database :: string
  database_url :: "string option"
  database_name :: "string option"
  connection_status :: string
  collections :: "string list"

text \<open>The three pictographs of the messages, as their UTF-8 bytes.\<close>

definition check_mark :: string where
  "check_mark = [CHR 0xE2, CHR 0x9C, CHR 0x85]"

definition cross_mark :: string where
  "cross_mark = [CHR 0xE2, CHR 0x9D, CHR 0x8C]"

definition warning_sign :: string where
  "warning_sign = [CHR 0xE2, CHR 0x9A, CHR 0xA0, CHR 0xEF, CHR 0xB8, CHR 0x8F]"

definition initial_response :: response where
  "initial_response =
     \<lparr>backend = check_mark @ '' Running'',
      database = cross_mark @ '' Not Available'',
      database_url = None,
      database_name = None,
      connection_status = ''Not Connected'',
      collections = []\<rparr>"

definition str_exn :: "exn \<Rightarrow> string" where
  "str_exn e = (case e of ImportError m \<Rightarrow> m | Exception m \<Rightarrow> m)"

text \<open>The branch \<open>db is not None\<close>, with its own \<open>try\<close> around the listing.\<close>

definition probe_handle :: "db_handle \<Rightarrow> response \<Rightarrow> response" where
  "probe_handle db response =
     (let response = response
            \<lparr>database := check_mark @ '' Available'',
             database_url := Some (check_mark @ '' Configured''),
             database_name :=
               Some (case db_name db of Some n \<Rightarrow> n | None \<Rightarrow> check_mark @ '' Connected''),
             connection_status := ''Connected''\<rparr>
      in case list_collection_names db of
           Inr cols \<Rightarrow>
             response\<lparr>collections := take 10 cols,
                      database := check_mark @ '' Connected & Working''\<rparr>
         | Inl e \<Rightarrow>
             response\<lparr>database :=
               warning_sign @ ''  Connected but Error: '' @ take 50 (str_exn e)\<rparr>)"

text \<open>The body of the outer \<open>try\<close>: it raises what the import raises.\<close>

definition try_body :: "import_outcome \<Rightarrow> response \<Rightarrow> exn + response" where
  "try_body imp response =
     (case imp of
        ImportRaises e \<Rightarrow> Inl e
      | Imported None \<Rightarrow>
          Inr (response\<lparr>database := warning_sign @ ''  Available but not initialized''\<rparr>)
      | Imported (Some db) \<Rightarrow> Inr (probe_handle db response))"

text \<open>The two \<open>except\<close> clauses of the outer \<open>try\<close>, in the order of the source.\<close>

definition handlers :: "response \<Rightarrow> exn \<Rightarrow> exn + response" where
  "handlers response e =
     (case e of
        ImportError m \<Rightarrow>
          Inr (response\<lparr>database :=
            cross_mark @ '' Database module not found (run enable-database first)''\<rparr>)
      | Exception m \<Rightarrow>
          Inr (response\<lparr>database := cross_mark @ '' Error: '' @ take 50 (str_exn e)\<rparr>))"

text \<open>
  \<open>os.getenv\<close> on the environment, an association list, and the truth value Python
  gives its result: \<open>None\<close> and the empty string are false.
\<close>

definition getenv :: "(string \<times> string) list \<Rightarrow> string \<Rightarrow> string option" where
  "getenv environ k = map_of environ k"

definition truthy :: "string option \<Rightarrow> bool" where
  "truthy v = (case v of None \<Rightarrow> False | Some s \<Rightarrow> s \<noteq> [])"

definition set_or_not :: "string option \<Rightarrow> string" where
  "set_or_not v = (if truthy v then check_mark @ '' Set'' else cross_mark @ '' Not Set'')"

definition test_database :: "import_outcome \<Rightarrow> (string \<times> string) list \<Rightarrow> exn + response" where
  "test_database imp environ =
     (case (case try_body imp initial_response of
              Inr response \<Rightarrow> Inr response
            | Inl e \<Rightarrow> handlers initial_response e) of
        Inl e \<Rightarrow> Inl e
      | Inr response \<Rightarrow>
          Inr (response
            \<lparr>database_url := Some (set_or_not (getenv environ ''DATABASE_URL'')),
             database_name := Some (set_or_not (getenv environ ''DATABASE_NAME''))\<rparr>))"

section \<open>Conditions on a text\<close>

text \<open>
  The conditions the properties below speak of. Some dictionary key occurs in the text
  as a substring, which is the test of the loop:
\<close>

definition has_correction_key :: "string \<Rightarrow> bool" where
  "has_correction_key s = list_ex (\<lambda>(wrong, right). contains wrong s) COMMON_CORRECTIONS"

text \<open>
  The text ends in terminal punctuation; its first character is what \<open>upper\<close> makes of
  it; no character after the first is changed by \<open>lower\<close>.
\<close>

definition ends_with_terminal :: "string \<Rightarrow> bool" where
  "ends_with_terminal s = (s \<noteq> [] \<and> last s \<in> set ''.?!'')"

definition first_capitalized :: "string \<Rightarrow> bool" where
  "first_capitalized s = (s \<noteq> [] \<and> upper_char (hd s) = hd s)"

definition rest_lowercase :: "string \<Rightarrow> bool" where
  "rest_lowercase s = (lower (tl s) = tl s)"

text \<open>A text that is not empty and does not begin with white space.\<close>

definition starts_clean :: "string \<Rightarrow> bool" where
  "starts_clean s = (s \<noteq> [] \<and> \<not> isspace (hd s))"

text \<open>A text that lowering and capitalizing the first character give back.\<close>

definition settled :: "string \<Rightarrow> bool" where
  "settled s = (capitalize_first (lower s) = s)"

text \<open>
  The capitals of the dictionary: a replacement text holds no capital but \<open>I\<close> and
  \<open>E\<close>, and the one with an \<open>E\<close> also holds an \<open>i\<close>. A rule is sound when its
  replacement is of that kind and it cannot take the last \<open>i\<close>, \<open>I\<close> or \<open>r\<close> out of
  a text.
\<close>

definition mentions_i_or_r :: "string \<Rightarrow> bool" where
  "mentions_i_or_r s = (CHR ''i'' \<in> set s \<or> CHR ''I'' \<in> set s \<or> CHR ''r'' \<in> set s)"

definition capitals_accounted :: "string \<Rightarrow> bool" where
  "capitals_accounted s =
     ((\<forall>c\<in>set s. c \<in> set ascii_uppercase \<longrightarrow> c = CHR ''I'' \<or> c = CHR ''E'') \<and>
      (CHR ''E'' \<in> set s \<longrightarrow> mentions_i_or_r s))"

definition sound_rule :: "string \<times> string \<Rightarrow> bool" where
  "sound_rule rule =
     (case rule of (wrong, right) \<Rightarrow>
        wrong \<noteq> [] \<and> capitals_accounted right \<and>
        (mentions_i_or_r right \<or> \<not> mentions_i_or_r wrong))"

section \<open>Characters\<close>

lemma lower_char_cases: "lower_char c = c \<or> c \<in> set ascii_uppercase"
proof (cases "map_of (zip ascii_uppercase ascii_lowercase) c")
  case None
  then show ?thesis by (simp add: lower_char_def)
next
  case (Some d)
  then have "(c, d) \<in> set (zip ascii_uppercase ascii_lowercase)" by (rule map_of_SomeD)
  then show ?thesis by (blast dest: set_zip_leftD)
qed

lemma upper_char_cases: "upper_char c = c \<or> c \<in> set ascii_lowercase"
proof (cases "map_of (zip ascii_lowercase ascii_uppercase) c")
  case None
  then show ?thesis by (simp add: upper_char_def)
next
  case (Some d)
  then have "(c, d) \<in> set (zip ascii_lowercase ascii_uppercase)" by (rule map_of_SomeD)
  then show ?thesis by (blast dest: set_zip_leftD)
qed

text \<open>The two alphabets are finite: what holds of each letter is checked letter by letter.\<close>

lemma lowercase_table:
  "list_all (\<lambda>c. lower_char (upper_char c) = lower_char c \<and> \<not> isspace c \<and>
      \<not> isspace (upper_char c) \<and> upper_char c \<noteq> c \<and> lower_char c = c \<and>
      c \<notin> set ascii_uppercase \<and> upper_char c \<in> set ascii_uppercase) ascii_lowercase"
  by code_simp

lemma uppercase_table:
  "list_all (\<lambda>c. upper_char (lower_char c) = c \<and> \<not> isspace c \<and>
      \<not> isspace (lower_char c) \<and> lower_char c \<noteq> c \<and> upper_char c = c \<and>
      lower_char c \<notin> set ascii_uppercase \<and> lower_char (lower_char c) = lower_char c \<and>
      lower_char c \<in> set ascii_lowercase) ascii_uppercase"
  by code_simp

lemmas lowercaseD = lowercase_table [unfolded list_all_iff, rule_format]
lemmas uppercaseD = uppercase_table [unfolded list_all_iff, rule_format]

lemma lower_char_upper_char: "lower_char (upper_char c) = lower_char c"
  using upper_char_cases [of c] lowercaseD [of c] by auto

lemma upper_char_lower_char: "upper_char c = c \<Longrightarrow> upper_char (lower_char c) = c"
  using lower_char_cases [of c] uppercaseD [of c] by auto

lemma isspace_upper_char: "isspace (upper_char c) = isspace c"
  using upper_char_cases [of c] lowercaseD [of c] by auto

lemma isspace_lower_char: "isspace (lower_char c) = isspace c"
  using lower_char_cases [of c] uppercaseD [of c] by auto

lemma lower_char_not_upper: "lower_char c \<notin> set ascii_uppercase"
  using lower_char_cases [of c] uppercaseD [of c] by auto

lemma lower_char_fix: "c \<notin> set ascii_uppercase \<Longrightarrow> lower_char c = c"
  using lower_char_cases [of c] by auto

lemma punctuation_chars:
  "lower ''.'' = ''.''" "lower ''?'' = ''?''" "capitalize_first ''?'' = ''?''"
  "\<not> isspace CHR ''.''" "\<not> isspace CHR ''?''" "\<not> isspace CHR ''!''"
  by code_simp+

lemma terminal_not_space: "x \<in> set ''.?!'' \<Longrightarrow> \<not> isspace x"
  using punctuation_chars by auto

section \<open>Trimming and lowering\<close>

lemma strip_Nil: "strip [] = []"
  by (simp add: strip_def)

lemma strip_ends:
  assumes ne: "strip s \<noteq> []"
  shows "\<not> isspace (hd (strip s)) \<and> \<not> isspace (last (strip s))"
proof -
  let ?a = "dropWhile isspace s"
  let ?b = "dropWhile isspace (rev ?a)"
  have b: "?b \<noteq> []" using ne by (simp add: strip_def)
  then have hb: "\<not> isspace (hd ?b)" by (rule hd_dropWhile)
  have a: "?a \<noteq> []" using b by (metis dropWhile.simps(1) rev.simps(1))
  then have ha: "\<not> isspace (hd ?a)" by (rule hd_dropWhile)
  have "last (strip s) = hd ?b" using b by (simp add: strip_def last_rev)
  moreover have "hd (strip s) = last ?b" using b by (simp add: strip_def hd_rev)
  moreover have "last ?b = last (rev ?a)"
  proof -
    obtain xs where "rev ?a = xs @ ?b"
      by (metis takeWhile_dropWhile_id)
    then show ?thesis using b by (metis last_appendR)
  qed
  moreover have "last (rev ?a) = hd ?a" using a by (simp add: last_rev)
  ultimately show ?thesis using ha hb by simp
qed

lemma strip_fixed:
  assumes s: "s \<noteq> []" and h: "\<not> isspace (hd s)" and l: "\<not> isspace (last s)"
  shows "strip s = s"
proof -
  have 1: "dropWhile isspace s = s" using s h by (cases s) simp_all
  have "rev s \<noteq> []" "\<not> isspace (hd (rev s))" using s l by (simp_all add: hd_rev)
  then have 2: "dropWhile isspace (rev s) = rev s" by (cases "rev s") simp_all
  show ?thesis by (simp add: strip_def 1 2)
qed

lemma lowered_starts_clean: "strip s \<noteq> [] \<Longrightarrow> starts_clean (lower (strip s))"
  using strip_ends [of s]
  by (simp add: starts_clean_def lower_def hd_map isspace_lower_char)

lemma lower_append: "lower (s @ t) = lower s @ lower t"
  by (simp add: lower_def)

lemma lower_capitalize_first: "lower (capitalize_first s) = lower s"
  by (cases s) (simp_all add: capitalize_first_def lower_def lower_char_upper_char)

lemma lower_no_capitals: "c \<in> set (lower s) \<Longrightarrow> c \<notin> set ascii_uppercase"
  by (auto simp: lower_def lower_char_not_upper)

section \<open>Substrings and replacement\<close>

lemma contains_single: "contains [x] s = (x \<in> set s)"
  by (induction s) (auto simp: startswith_def)

lemma endswith_period: "endswith s ''.'' = (s \<noteq> [] \<and> last s = CHR ''.'')"
proof (cases s rule: rev_cases)
  case Nil
  then show ?thesis by (simp add: endswith_def)
next
  case (snoc ys y)
  then show ?thesis by (auto simp: endswith_def)
qed

text \<open>The replacement puts in no character but those of the text and of \<open>new\<close>.\<close>

lemma set_replace_scan: "set (replace_scan old new s) \<subseteq> set s \<union> set new"
proof (induction old new s rule: replace_scan.induct)
  case (1 old new)
  then show ?case by simp
next
  case (2 old new c cs)
  show ?case
  proof (cases "startswith (c # cs) old")
    case True
    have "set (drop (length old - 1) cs) \<subseteq> set cs" by (rule set_drop_subset)
    then show ?thesis using True 2(1) by auto
  next
    case False
    then show ?thesis using 2(2) by auto
  qed
qed

text \<open>A character that is not in \<open>old\<close> is in no occurrence of it, and stays.\<close>

lemma replace_scan_keeps:
  "old \<noteq> [] \<Longrightarrow> x \<in> set s \<Longrightarrow> x \<notin> set old \<Longrightarrow> x \<in> set (replace_scan old new s)"
proof (induction old new s rule: replace_scan.induct)
  case (1 old new)
  then show ?case by simp
next
  case (2 old new c cs)
  show ?case
  proof (cases "startswith (c # cs) old")
    case True
    then have old: "old = take (length old) (c # cs)" by (simp add: startswith_def)
    have "c # cs = take (length old) (c # cs) @ drop (length old) (c # cs)" by simp
    then have "set (c # cs) = set old \<union> set (drop (length old) (c # cs))"
      using old by (metis set_append)
    moreover have "drop (length old) (c # cs) = drop (length old - 1) cs"
      using 2(3) by (cases old) simp_all
    ultimately have "x \<in> set (drop (length old - 1) cs)" using 2(4,5) by auto
    then have "x \<in> set (replace_scan old new (drop (length old - 1) cs))"
      using True 2(1,3,5) by simp
    then show ?thesis using True by simp
  next
    case False
    then show ?thesis using 2 by auto
  qed
qed

text \<open>Where \<open>old\<close> occurs, the result holds \<open>new\<close>.\<close>

lemma replace_scan_new:
  "contains old s \<Longrightarrow> old \<noteq> [] \<Longrightarrow> set new \<subseteq> set (replace_scan old new s)"
  by (induction s) auto

lemma set_replace: "old \<noteq> [] \<Longrightarrow> set (replace s old new) \<subseteq> set s \<union> set new"
  by (simp add: replace_def set_replace_scan)

lemma replace_keeps:
  "old \<noteq> [] \<Longrightarrow> x \<in> set s \<Longrightarrow> x \<notin> set old \<Longrightarrow> x \<in> set (replace s old new)"
  by (simp add: replace_def replace_scan_keeps)

lemma replace_new:
  "contains old s \<Longrightarrow> old \<noteq> [] \<Longrightarrow> set new \<subseteq> set (replace s old new)"
  by (simp add: replace_def replace_scan_new)

lemma hd_replace:
  assumes "s \<noteq> []" "new \<noteq> []"
  shows "replace s old new \<noteq> [] \<and>
    (hd (replace s old new) = hd s \<or> hd (replace s old new) = hd new)"
proof (cases s)
  case Nil
  then show ?thesis using assms by simp
next
  case (Cons c cs)
  then show ?thesis using assms by (auto simp: replace_def)
qed

section \<open>The loop over the dictionary\<close>

text \<open>
  A property of the text that every matching rule keeps is kept by the loop over the
  dictionary.
\<close>

lemma apply_corrections_invariant:
  assumes "P s"
    and "\<And>w r t. (w, r) \<in> set rs \<Longrightarrow> P t \<Longrightarrow> contains w t \<Longrightarrow> P (replace t w r)"
  shows "P (fst (apply_corrections rs s sg))"
  using assms
proof (induction rs arbitrary: s sg)
  case Nil
  then show ?case by simp
next
  case (Cons a rs)
  obtain w r where a: "a = (w, r)" by (cases a)
  show ?case
  proof (cases "contains w s")
    case True
    have "P (replace s w r)" using Cons.prems a True by simp
    then have "P (fst (apply_corrections rs (replace s w r) (sg @ [correction_suggestion r w])))"
      using Cons.prems(2) by (intro Cons.IH) simp_all
    then show ?thesis using a True by simp
  next
    case False
    have "P (fst (apply_corrections rs s sg))"
      using Cons.prems by (intro Cons.IH) simp_all
    then show ?thesis using a False by simp
  qed
qed

lemma apply_corrections_no_match:
  "\<not> list_ex (\<lambda>(wrong, right). contains wrong s) rs \<Longrightarrow> apply_corrections rs s sg = (s, sg)"
  by (induction rs arbitrary: sg) auto

lemma apply_corrections_no_key:
  "\<not> has_correction_key s \<Longrightarrow> apply_corrections COMMON_CORRECTIONS s [] = (s, [])"
  by (intro apply_corrections_no_match) (simp add: has_correction_key_def)

lemma apply_corrections_empty: "apply_corrections COMMON_CORRECTIONS [] sg = ([], sg)"
  by (simp add: COMMON_CORRECTIONS_def)

lemma key_i_or_r:
  assumes "CHR ''i'' \<in> set s \<or> CHR ''r'' \<in> set s"
  shows "has_correction_key s"
proof -
  have "(''i'', ''I'') \<in> set COMMON_CORRECTIONS" "(''r'', ''are'') \<in> set COMMON_CORRECTIONS"
    by (simp_all add: COMMON_CORRECTIONS_def)
  moreover have "contains ''i'' s \<or> contains ''r'' s"
    using assms by (simp add: contains_single)
  ultimately show ?thesis unfolding has_correction_key_def list_ex_iff by blast
qed

lemma corrections_start_clean:
  "list_all (\<lambda>(wrong, right). starts_clean right) COMMON_CORRECTIONS"
  by code_simp

lemma apply_corrections_starts_clean:
  assumes "starts_clean s"
  shows "starts_clean (fst (apply_corrections COMMON_CORRECTIONS s sg))"
proof (rule apply_corrections_invariant [where P = starts_clean, OF assms])
  fix w r t
  assume wr: "(w, r) \<in> set COMMON_CORRECTIONS" and t: "starts_clean t"
  from wr corrections_start_clean have r: "starts_clean r"
    by (auto simp: list_all_iff)
  show "starts_clean (replace t w r)"
    using hd_replace [of t r w] r t by (auto simp: starts_clean_def)
qed

lemma corrections_sound: "list_all sound_rule COMMON_CORRECTIONS"
  by code_simp

lemma mentions_mono: "mentions_i_or_r s \<Longrightarrow> set s \<subseteq> set t \<Longrightarrow> mentions_i_or_r t"
  by (auto simp: mentions_i_or_r_def)

lemma replace_capitals_accounted:
  assumes t: "capitals_accounted t" and rule: "sound_rule (w, r)" and hit: "contains w t"
  shows "capitals_accounted (replace t w r)"
proof -
  from rule have w: "w \<noteq> []" and r: "capitals_accounted r"
    and alt: "mentions_i_or_r r \<or> \<not> mentions_i_or_r w"
    by (simp_all add: sound_rule_def)
  have sub: "set (replace t w r) \<subseteq> set t \<union> set r" using w by (rule set_replace)
  have caps: "\<forall>c\<in>set (replace t w r). c \<in> set ascii_uppercase \<longrightarrow> c = CHR ''I'' \<or> c = CHR ''E''"
    using sub t r unfolding capitals_accounted_def by blast
  have ment: "mentions_i_or_r (replace t w r)" if e: "CHR ''E'' \<in> set (replace t w r)"
  proof (cases "mentions_i_or_r r")
    case True
    then show ?thesis using replace_new [OF hit w] by (rule mentions_mono)
  next
    case False
    then have nw: "\<not> mentions_i_or_r w" using alt by simp
    from False r have "CHR ''E'' \<notin> set r" by (auto simp: capitals_accounted_def)
    with e sub have "CHR ''E'' \<in> set t" by auto
    with t have "mentions_i_or_r t" by (simp add: capitals_accounted_def)
    then obtain x where x: "x \<in> set t" "x = CHR ''i'' \<or> x = CHR ''I'' \<or> x = CHR ''r''"
      by (auto simp: mentions_i_or_r_def)
    with nw have "x \<notin> set w" by (auto simp: mentions_i_or_r_def)
    then have "x \<in> set (replace t w r)" using w x(1) by (intro replace_keeps)
    with x(2) show ?thesis by (auto simp: mentions_i_or_r_def)
  qed
  show ?thesis using caps ment by (simp add: capitals_accounted_def)
qed

lemma apply_corrections_capitals_accounted:
  assumes "capitals_accounted s"
  shows "capitals_accounted (fst (apply_corrections COMMON_CORRECTIONS s sg))"
proof (rule apply_corrections_invariant [where P = capitals_accounted, OF assms])
  fix w r t
  assume wr: "(w, r) \<in> set COMMON_CORRECTIONS" and t: "capitals_accounted t"
    and hit: "contains w t"
  from wr corrections_sound have "sound_rule (w, r)" by (auto simp: list_all_iff)
  with t hit show "capitals_accounted (replace t w r)" by (intro replace_capitals_accounted)
qed

lemma lower_capitals_accounted: "capitals_accounted (lower s)"
proof -
  have "CHR ''E'' \<in> set ascii_uppercase" by (simp add: ascii_uppercase_def)
  then have "CHR ''E'' \<notin> set (lower s)" using lower_no_capitals by blast
  then show ?thesis using lower_no_capitals by (auto simp: capitals_accounted_def)
qed

lemma mentions_lower:
  assumes "mentions_i_or_r s"
  shows "CHR ''i'' \<in> set (lower s) \<or> CHR ''r'' \<in> set (lower s)"
proof -
  have l: "lower_char CHR ''i'' = CHR ''i''" "lower_char CHR ''I'' = CHR ''i''"
    "lower_char CHR ''r'' = CHR ''r''" by code_simp+
  from assms obtain x where "x \<in> set s" "lower_char x = CHR ''i'' \<or> lower_char x = CHR ''r''"
    using l by (auto simp: mentions_i_or_r_def)
  then show ?thesis unfolding lower_def set_map by (metis imageI)
qed

section \<open>The steps of basic_improve\<close>

lemma fst_basic_improve:
  "fst (basic_improve text) =
     question_mark (add_period (capitalize_first
       (fst (apply_corrections COMMON_CORRECTIONS (lower (strip text)) []))))"
  by (simp add: basic_improve_def Let_def split: prod.splits)

lemma snd_basic_improve:
  "snd (basic_improve text) =
     (if fst (basic_improve text) = strip text
      then snd (apply_corrections COMMON_CORRECTIONS (lower (strip text)) []) @ [encouragement]
      else snd (apply_corrections COMMON_CORRECTIONS (lower (strip text)) []))"
  by (simp add: basic_improve_def Let_def split: prod.splits)

lemma question_mark_alt:
  "question_mark s =
     (if starts_with_question_lead s \<and> endswith s ''.'' then butlast s @ ''?'' else s)"
  by (simp add: question_mark_def)

lemma capitalize_first_append: "s \<noteq> [] \<Longrightarrow> capitalize_first (s @ t) = capitalize_first s @ t"
  by (cases s) (simp_all add: capitalize_first_def)

lemma capitalize_first_nonempty: "s \<noteq> [] \<Longrightarrow> capitalize_first s \<noteq> []"
  by (cases s) (simp_all add: capitalize_first_def)

lemma add_period_ends: "s \<noteq> [] \<Longrightarrow> add_period s \<noteq> [] \<and> last (add_period s) \<in> set ''.?!''"
  by (simp add: add_period_def)

lemma question_mark_ends:
  "s \<noteq> [] \<Longrightarrow> last s \<in> set ''.?!'' \<Longrightarrow>
     question_mark s \<noteq> [] \<and> last (question_mark s) \<in> set ''.?!''"
  by (simp add: question_mark_def)

lemma question_mark_idem: "question_mark (question_mark s) = question_mark s"
  by (simp add: question_mark_alt endswith_period)

text \<open>Each step keeps a text that starts clean so.\<close>

lemma capitalize_first_starts_clean: "starts_clean s \<Longrightarrow> starts_clean (capitalize_first s)"
  by (cases s) (simp_all add: starts_clean_def capitalize_first_def isspace_upper_char)

lemma add_period_starts_clean: "starts_clean s \<Longrightarrow> starts_clean (add_period s)"
  by (simp add: starts_clean_def add_period_def)

lemma question_mark_starts_clean:
  assumes "starts_clean s"
  shows "starts_clean (question_mark s)"
proof (cases "butlast s = []")
  case True
  then show ?thesis using assms
    by (simp add: question_mark_alt starts_clean_def punctuation_chars)
next
  case False
  then have "hd (butlast s) = hd s" by (cases s) auto
  then show ?thesis using assms False
    by (simp add: question_mark_alt starts_clean_def)
qed

text \<open>The punctuation steps keep a settled text settled.\<close>

lemma settled_capitalize_first:
  assumes "\<forall>c\<in>set s. c \<notin> set ascii_uppercase"
  shows "settled (capitalize_first s)"
proof (cases s)
  case Nil
  then show ?thesis by (simp add: settled_def capitalize_first_def lower_def)
next
  case (Cons a as)
  have a: "lower_char a = a" using assms Cons by (simp add: lower_char_fix)
  have "map lower_char as = as"
    using assms Cons by (intro map_idI) (simp add: lower_char_fix)
  then show ?thesis
    using Cons a by (simp add: settled_def capitalize_first_def lower_def lower_char_upper_char)
qed

lemma settled_append_mark:
  assumes "settled s" "s \<noteq> []" "lower m = m"
  shows "settled (s @ m)"
proof -
  have "lower s \<noteq> []" using assms(2) by (simp add: lower_def)
  then show ?thesis
    using assms by (simp add: settled_def lower_append capitalize_first_append)
qed

lemma settled_butlast:
  assumes "settled s" "butlast s \<noteq> []"
  shows "settled (butlast s)"
proof -
  from assms(2) have s: "s \<noteq> []" by auto
  then have eq: "s = butlast s @ [last s]" by simp
  have "capitalize_first (lower (butlast s) @ lower [last s]) = butlast s @ [last s]"
    using assms(1) eq unfolding settled_def by (metis lower_append)
  moreover have "lower (butlast s) \<noteq> []" using assms(2) by (simp add: lower_def)
  ultimately have "capitalize_first (lower (butlast s)) @ lower [last s] = butlast s @ [last s]"
    by (simp add: capitalize_first_append)
  moreover have "length (lower [last s]) = length [last s]" by (simp add: lower_def)
  ultimately show ?thesis unfolding settled_def by (metis append_eq_append_conv)
qed

lemma settled_add_period: "settled s \<Longrightarrow> settled (add_period s)"
  by (simp add: add_period_def settled_append_mark punctuation_chars)

lemma settled_question_mark:
  assumes "settled s"
  shows "settled (question_mark s)"
proof (cases "starts_with_question_lead s \<and> endswith s ''.''")
  case False
  then have "question_mark s = s" by (auto simp: question_mark_alt)
  then show ?thesis using assms by simp
next
  case True
  then have q: "question_mark s = butlast s @ ''?''" by (simp add: question_mark_alt)
  show ?thesis
  proof (cases "butlast s = []")
    case True
    then show ?thesis by (simp add: q settled_def punctuation_chars)
  next
    case False
    then have "settled (butlast s @ ''?'')"
      using assms by (intro settled_append_mark settled_butlast) (simp_all add: punctuation_chars)
    then show ?thesis by (simp add: q)
  qed
qed

text \<open>The punctuation steps take no letter out of the text.\<close>

lemma add_period_keeps: "x \<in> set (lower s) \<Longrightarrow> x \<in> set (lower (add_period s))"
  by (simp add: add_period_def lower_append)

lemma question_mark_keeps:
  assumes "x \<in> set (lower s)" "x \<noteq> CHR ''.''"
  shows "x \<in> set (lower (question_mark s))"
proof (cases "starts_with_question_lead s \<and> endswith s ''.''")
  case False
  then have "question_mark s = s" by (auto simp: question_mark_alt)
  then show ?thesis using assms by simp
next
  case True
  then have q: "question_mark s = butlast s @ ''?''" by (simp add: question_mark_alt)
  from True have "s \<noteq> []" "last s = CHR ''.''" by (simp_all add: endswith_period)
  then have "s = butlast s @ ''.''" by (metis append_butlast_last_id)
  then have "lower s = lower (butlast s) @ ''.''"
    by (metis lower_append punctuation_chars(1))
  then have "x \<in> set (lower (butlast s))" using assms by auto
  then show ?thesis by (simp add: q lower_append)
qed

text \<open>The improved text of an input that is not empty after trimming.\<close>

lemma improved_shape:
  assumes ne: "strip text \<noteq> []"
  shows "starts_clean (fst (basic_improve text)) \<and>
         last (fst (basic_improve text)) \<in> set ''.?!''"
proof -
  let ?imp = "fst (apply_corrections COMMON_CORRECTIONS (lower (strip text)) [])"
  have 1: "starts_clean ?imp"
    using ne by (intro apply_corrections_starts_clean lowered_starts_clean)
  then have 2: "starts_clean (capitalize_first ?imp)" by (rule capitalize_first_starts_clean)
  then have 3: "starts_clean (add_period (capitalize_first ?imp))"
    by (rule add_period_starts_clean)
  then have 4: "starts_clean (question_mark (add_period (capitalize_first ?imp)))"
    by (rule question_mark_starts_clean)
  have "capitalize_first ?imp \<noteq> []" using 2 by (simp add: starts_clean_def)
  then have "last (add_period (capitalize_first ?imp)) \<in> set ''.?!''"
    using add_period_ends by blast
  then have "last (question_mark (add_period (capitalize_first ?imp))) \<in> set ''.?!''"
    using 3 question_mark_ends by (simp add: starts_clean_def)
  with 4 show ?thesis by (simp add: fst_basic_improve)
qed

lemma basic_improve_of_empty: "strip text = [] \<Longrightarrow> basic_improve text = ([], [encouragement])"
  by (simp add: basic_improve_def lower_def apply_corrections_empty capitalize_first_def
      add_period_def question_mark_def starts_with_question_lead_def question_leads_def
      startswith_def)

section \<open>Claims about basic_improve on given inputs\<close>

text \<open>
  C1, as the code has it. On \<open>"what is your name"\<close> the dictionary pass does change the
  text: the keys \<open>i\<close>, \<open>u\<close>, \<open>ur\<close> and \<open>r\<close> occur in it as substrings (in \<open>is\<close> and in
  \<open>your\<close>), in that order of the dictionary, and the pass gives
  \<open>"what Is yoyoyouare name"\<close> with four correction suggestions. The first character is
  then capitalized, a period is appended, and the lead word \<open>what\<close> turns the period
  into a question mark: the result is \<open>"What Is yoyoyouare name?"\<close>.
\<close>

theorem basic_improve_what_is_your_name:
  "apply_corrections COMMON_CORRECTIONS (lower (strip ''what is your name'')) [] =
     (''what Is yoyoyouare name'',
      [''Consider using 'I' instead of 'i'.'',
       ''Consider using 'you' instead of 'u'.'',
       ''Consider using 'your' instead of 'ur'.'',
       ''Consider using 'are' instead of 'r'.'']) \<and>
   capitalize_first ''what Is yoyoyouare name'' = ''What Is yoyoyouare name'' \<and>
   add_period ''What Is yoyoyouare name'' = ''What Is yoyoyouare name.'' \<and>
   question_mark ''What Is yoyoyouare name.'' = ''What Is yoyoyouare name?'' \<and>
   basic_improve ''what is your name'' =
     (''What Is yoyoyouare name?'',
      [''Consider using 'I' instead of 'i'.'',
       ''Consider using 'you' instead of 'u'.'',
       ''Consider using 'your' instead of 'ur'.'',
       ''Consider using 'are' instead of 'r'.''])"
  by code_simp

text \<open>
  C1 as the specification states it fails: the dictionary pass does not leave
  \<open>"what is your name"\<close> unchanged, and the improved string is not
  \<open>"What is your name?"\<close>.
\<close>

theorem basic_improve_what_is_your_name_counterexample:
  "fst (apply_corrections COMMON_CORRECTIONS (lower (strip ''what is your name'')) [])
     \<noteq> ''what is your name'' \<and>
   fst (basic_improve ''what is your name'') \<noteq> ''What is your name?''"
  by code_simp

text \<open>
  C3, as the code has it. For a text that is empty after trimming, the dictionary pass,
  the capitalization, the punctuation and the interrogative step leave the empty text
  as it is and no correction is suggested; the improved text equals the trimmed input,
  so the encouragement is appended: the result is the empty string with the
  encouragement as the only suggestion.
\<close>

theorem basic_improve_empty:
  "strip text = [] \<Longrightarrow>
     apply_corrections COMMON_CORRECTIONS (lower (strip text)) [] = ([], []) \<and>
     capitalize_first [] = [] \<and> add_period [] = [] \<and> question_mark [] = [] \<and>
     basic_improve text =
       ([], [''Great job! Your sentence looks good. Try to add more detail.''])"
  by (simp add: basic_improve_of_empty lower_def apply_corrections_empty capitalize_first_def
      add_period_def question_mark_def starts_with_question_lead_def question_leads_def
      startswith_def encouragement_def)

theorem basic_improve_empty_witness:
  "strip '' '' = [] \<and>
   basic_improve '' '' = ([], [''Great job! Your sentence looks good. Try to add more detail.''])"
proof -
  have h: "strip '' '' = []" by code_simp
  show ?thesis using h basic_improve_empty [OF h] by simp
qed

text \<open>
  C3 as the specification states it fails: on the empty string the suggestions list is
  not empty.
\<close>

theorem basic_improve_empty_counterexample:
  "basic_improve [] \<noteq> ([], [])"
  by code_simp

text \<open>
  C5. On \<open>"i dont know"\<close> the result is \<open>"I don't know."\<close> with exactly two
  suggestions, the one of the rule \<open>i\<close> and then the one of the rule \<open>dont\<close>, the order
  of the two keys in the dictionary.
\<close>

theorem basic_improve_i_dont_know:
  "basic_improve ''i dont know'' =
     (''I don't know.'',
      [''Consider using 'I' instead of 'i'.'',
       ''Consider using 'don't' instead of 'dont'.''])"
  by code_simp

section \<open>Claims about basic_improve on every input\<close>

text \<open>
  C10. For every input that is not empty after trimming, the improved string is not
  empty and its last character is a period, a question mark or an exclamation mark.
\<close>

theorem basic_improve_ends_with_punctuation:
  "strip text \<noteq> [] \<Longrightarrow>
     fst (basic_improve text) \<noteq> [] \<and> last (fst (basic_improve text)) \<in> set ''.?!''"
  using improved_shape [of "text"] by (simp add: starts_clean_def)

theorem basic_improve_ends_with_punctuation_witness:
  "strip '' how are you '' \<noteq> [] \<and> fst (basic_improve '' how are you '') \<noteq> [] \<and>
     last (fst (basic_improve '' how are you '')) \<in> set ''.?!''"
proof -
  have h: "strip '' how are you '' \<noteq> []" by code_simp
  show ?thesis using h basic_improve_ends_with_punctuation [OF h] by simp
qed

text \<open>
  C7, as the code has it. For every input whose trimmed form is not empty, holds no
  dictionary key as a substring once lowered, does not start with a question lead word,
  ends in terminal punctuation, has its first character capitalized and has no
  upper-case letter after the first character, the improved string is the trimmed
  input and the suggestions list is exactly the encouragement. The input is ASCII text,
  as everywhere in this model.
\<close>

theorem unchanged_text_encouraged:
  assumes ne: "strip text \<noteq> []"
    and nokey: "\<not> has_correction_key (lower (strip text))"
    and nolead: "\<not> starts_with_question_lead (strip text)"
    and ending: "ends_with_terminal (strip text)"
    and cap: "first_capitalized (strip text)"
    and rest: "rest_lowercase (strip text)"
  shows "basic_improve text =
    (strip text, [''Great job! Your sentence looks good. Try to add more detail.''])"
proof -
  let ?o = "strip text"
  have pass: "apply_corrections COMMON_CORRECTIONS (lower ?o) [] = (lower ?o, [])"
    using nokey by (rule apply_corrections_no_key)
  obtain a as where o: "?o = a # as" using ne by (cases ?o) auto
  have "upper_char (lower_char a) = a"
    using cap o by (simp add: first_capitalized_def upper_char_lower_char)
  moreover have "map lower_char as = as" using rest o by (simp add: rest_lowercase_def lower_def)
  ultimately have c: "capitalize_first (lower ?o) = ?o"
    by (simp add: o capitalize_first_def lower_def)
  have per: "add_period ?o = ?o" using ending by (simp add: add_period_def ends_with_terminal_def)
  have que: "question_mark ?o = ?o" using nolead by (simp add: question_mark_alt)
  have f: "fst (basic_improve text) = ?o"
    by (simp only: fst_basic_improve pass fst_conv c per que)
  have "snd (basic_improve text) = [encouragement]"
    by (simp only: snd_basic_improve f pass snd_conv simp_thms if_True append_Nil)
  with f show ?thesis unfolding encouragement_def by (metis prod.collapse)
qed

theorem unchanged_text_encouraged_witness:
  "strip '' Hello. '' \<noteq> [] \<and>
   \<not> has_correction_key (lower (strip '' Hello. '')) \<and>
   \<not> starts_with_question_lead (strip '' Hello. '') \<and>
   ends_with_terminal (strip '' Hello. '') \<and>
   first_capitalized (strip '' Hello. '') \<and>
   rest_lowercase (strip '' Hello. '') \<and>
   basic_improve '' Hello. '' =
     (''Hello.'', [''Great job! Your sentence looks good. Try to add more detail.''])"
proof -
  have h: "strip '' Hello. '' \<noteq> []" "\<not> has_correction_key (lower (strip '' Hello. ''))"
    "\<not> starts_with_question_lead (strip '' Hello. '')" "ends_with_terminal (strip '' Hello. '')"
    "first_capitalized (strip '' Hello. '')" "rest_lowercase (strip '' Hello. '')"
    by code_simp+
  have s: "strip '' Hello. '' = ''Hello.''" by code_simp
  show ?thesis using h unchanged_text_encouraged [OF h] by (simp add: s)
qed

text \<open>
  C7 as the specification states it fails: \<open>"Hello Bob."\<close> holds no dictionary key,
  does not start with a question lead word, ends in a period and is capitalized, but the
  whole text is lowered before the first character is capitalized, the improved string
  \<open>"Hello bob."\<close> differs from the input and the suggestions list is empty.
\<close>

theorem unchanged_text_counterexample:
  "strip ''Hello Bob.'' \<noteq> [] \<and>
   \<not> has_correction_key (lower (strip ''Hello Bob.'')) \<and>
   \<not> starts_with_question_lead (strip ''Hello Bob.'') \<and>
   ends_with_terminal (strip ''Hello Bob.'') \<and>
   first_capitalized (strip ''Hello Bob.'') \<and>
   basic_improve ''Hello Bob.'' = (''Hello bob.'', [])"
  by code_simp

text \<open>
  C2, as the code has it. For every input whose improved string, once lowered, holds no
  dictionary key as a substring, applying basic_improve to the improved string gives
  the same string back and no correction suggestion: the suggestions list of the second
  application is the encouragement alone. The input is ASCII text, as everywhere in this
  model.
\<close>

theorem second_pass_settled:
  assumes nokey: "\<not> has_correction_key (lower (fst (basic_improve text)))"
  shows "basic_improve (fst (basic_improve text)) =
    (fst (basic_improve text), [''Great job! Your sentence looks good. Try to add more detail.''])"
proof (cases "strip text = []")
  case True
  then have "fst (basic_improve text) = []" by (simp add: basic_improve_of_empty)
  then show ?thesis by (simp add: basic_improve_of_empty strip_Nil encouragement_def)
next
  case False
  let ?out = "fst (basic_improve text)"
  let ?imp = "fst (apply_corrections COMMON_CORRECTIONS (lower (strip text)) [])"
  have out: "?out = question_mark (add_period (capitalize_first ?imp))"
    by (rule fst_basic_improve)
  have shape: "starts_clean ?out" "last ?out \<in> set ''.?!''"
    using improved_shape [OF False] by simp_all
  have strip_out: "strip ?out = ?out"
    using shape terminal_not_space by (intro strip_fixed) (simp_all add: starts_clean_def)
  have no_ir: "\<not> (CHR ''i'' \<in> set (lower ?out) \<or> CHR ''r'' \<in> set (lower ?out))"
    using nokey key_i_or_r by blast
  have acc: "capitals_accounted ?imp"
    by (intro apply_corrections_capitals_accounted lower_capitals_accounted)
  have no_ment: "\<not> mentions_i_or_r ?imp"
  proof
    assume "mentions_i_or_r ?imp"
    then obtain x where x: "x \<in> set (lower ?imp)" "x = CHR ''i'' \<or> x = CHR ''r''"
      using mentions_lower by blast
    then have "x \<in> set (lower (capitalize_first ?imp))" by (simp add: lower_capitalize_first)
    then have "x \<in> set (lower (add_period (capitalize_first ?imp)))" by (rule add_period_keeps)
    moreover have "x \<noteq> CHR ''.''" using x(2) by auto
    ultimately have "x \<in> set (lower ?out)" unfolding out by (rule question_mark_keeps)
    with x(2) no_ir show False by blast
  qed
  have no_caps: "\<forall>c\<in>set ?imp. c \<notin> set ascii_uppercase"
    using acc no_ment by (auto simp: capitals_accounted_def mentions_i_or_r_def)
  have "settled (capitalize_first ?imp)" using no_caps by (rule settled_capitalize_first)
  then have "settled (add_period (capitalize_first ?imp))" by (rule settled_add_period)
  then have "settled ?out" unfolding out by (rule settled_question_mark)
  then have cap: "capitalize_first (lower ?out) = ?out" by (simp add: settled_def)
  have pass: "apply_corrections COMMON_CORRECTIONS (lower ?out) [] = (lower ?out, [])"
    using nokey by (rule apply_corrections_no_key)
  have per: "add_period ?out = ?out" using shape(2) by (simp add: add_period_def)
  have que: "question_mark ?out = ?out" unfolding out by (rule question_mark_idem)
  have f: "fst (basic_improve ?out) = ?out"
    by (simp only: fst_basic_improve [of ?out] strip_out pass fst_conv cap per que)
  have "snd (basic_improve ?out) = [encouragement]"
    by (simp only: snd_basic_improve [of ?out] f strip_out pass snd_conv simp_thms if_True
        append_Nil)
  with f show ?thesis unfolding encouragement_def by (metis prod.collapse)
qed

theorem second_pass_settled_witness:
  "fst (basic_improve ''dont'') = ''Don't.'' \<and>
   \<not> has_correction_key (lower (fst (basic_improve ''dont''))) \<and>
   basic_improve ''Don't.'' =
     (''Don't.'', [''Great job! Your sentence looks good. Try to add more detail.''])"
proof -
  have f: "fst (basic_improve ''dont'') = ''Don't.''" by code_simp
  have h: "\<not> has_correction_key (lower (fst (basic_improve ''dont'')))" by code_simp
  show ?thesis using f h second_pass_settled [OF h] by simp
qed

text \<open>
  C2 as the specification states it fails. The improved string of \<open>"u"\<close> is \<open>"You."\<close>;
  the second application finds the key \<open>u\<close> in it again, suggests a correction and
  returns \<open>"Yoyou."\<close>, which does not even begin with \<open>"You."\<close>. And where the second
  application changes nothing, as on \<open>"Hello."\<close>, the improved string of \<open>"hello"\<close>, its
  suggestions list is not empty either: it holds the encouragement.
\<close>

theorem second_pass_counterexample:
  "fst (basic_improve ''u'') = ''You.'' \<and>
   basic_improve ''You.'' = (''Yoyou.'', [''Consider using 'you' instead of 'u'.'']) \<and>
   \<not> startswith ''Yoyou.'' ''You.'' \<and>
   fst (basic_improve ''hello'') = ''Hello.'' \<and>
   snd (basic_improve ''Hello.'') \<noteq> []"
  by code_simp

section \<open>Claims about the tutor endpoint\<close>

text \<open>
  C6. For every request whose message is empty after trimming, whatever its level and
  whichever prompt would be drawn, the response is the fixed one: the reply
  \<open>"I didn't hear anything. ..."\<close>, two fixed suggestions and a fixed prompt. The
  response is the same whatever the improvement function is: it is not consulted.
\<close>

theorem tutor_empty_message:
  "strip (message req) = [] \<Longrightarrow>
     tutor req pick = empty_message_response \<and>
     tutor_with improve req pick = empty_message_response \<and>
     reply (tutor req pick) =
       ''I didn't hear anything. Try saying a simple sentence about your day.'' \<and>
     suggestions (tutor req pick) =
       [''Speak slowly and clearly.'', ''Start with: 'Today I ...'' @ [CHR 0x27]] \<and>
     prompt (tutor req pick) = Some (''Say: 'Today I woke up early and ...'' @ [CHR 0x27])"
  by (simp add: tutor_def tutor_with_def empty_message_response_def quoted_def)

theorem tutor_empty_message_witness:
  "strip (message \<lparr>message = ''  '', level = Some ''advanced''\<rparr>) = [] \<and>
   tutor \<lparr>message = ''  '', level = Some ''advanced''\<rparr> 3 = empty_message_response \<and>
   tutor_with (\<lambda>s. (s, [s])) \<lparr>message = ''  '', level = Some ''advanced''\<rparr> 3 =
     empty_message_response"
proof -
  have h: "strip (message \<lparr>message = ''  '', level = Some ''advanced''\<rparr>) = []" by code_simp
  show ?thesis
    using h tutor_empty_message [OF h, of 3 "\<lambda>s. (s, [s])"] by simp
qed

text \<open>
  C8. For every request whose message is not empty after trimming, the suggestions of
  the response are those of the improvement function on the trimmed message when that
  list is not empty, and the single fallback tip otherwise; the list is never empty.
\<close>

theorem tutor_suggestions:
  "strip (message req) \<noteq> [] \<Longrightarrow>
     suggestions (tutor req pick) =
       (if snd (basic_improve (strip (message req))) = []
        then [''Great effort! Add one more sentence to continue.'']
        else snd (basic_improve (strip (message req)))) \<and>
     suggestions (tutor req pick) \<noteq> []"
  by (simp add: tutor_def tutor_with_def Let_def fallback_tip_def split: prod.splits)

theorem tutor_suggestions_witness:
  "strip (message \<lparr>message = ''Hello Bob.'', level = None\<rparr>) \<noteq> [] \<and>
   snd (basic_improve (strip (message \<lparr>message = ''Hello Bob.'', level = None\<rparr>))) = [] \<and>
   suggestions (tutor \<lparr>message = ''Hello Bob.'', level = None\<rparr> 0) =
     [''Great effort! Add one more sentence to continue.''] \<and>
   strip (message \<lparr>message = ''i dont know'', level = None\<rparr>) \<noteq> [] \<and>
   suggestions (tutor \<lparr>message = ''i dont know'', level = None\<rparr> 0) =
     [''Consider using 'I' instead of 'i'.'', ''Consider using 'don't' instead of 'dont'.'']"
proof -
  have h1: "strip (message \<lparr>message = ''Hello Bob.'', level = None\<rparr>) \<noteq> []" by code_simp
  have e1: "snd (basic_improve (strip (message \<lparr>message = ''Hello Bob.'', level = None\<rparr>))) = []"
    by code_simp
  have h2: "strip (message \<lparr>message = ''i dont know'', level = None\<rparr>) \<noteq> []" by code_simp
  have e2: "snd (basic_improve (strip (message \<lparr>message = ''i dont know'', level = None\<rparr>))) =
    [''Consider using 'I' instead of 'i'.'', ''Consider using 'don't' instead of 'dont'.'']"
    by code_simp
  show ?thesis
    using h1 h2 e1 e2 tutor_suggestions [OF h1, of 0] tutor_suggestions [OF h2, of 0]
    by simp
qed

text \<open>
  C4, as the code has it. For a message that is not empty after trimming: the level
  \<open>"beginner"\<close>, which is also what a request without the field gets, yields the reply
  that quotes the trimmed message and the improved text; the level \<open>"advanced"\<close> yields
  the reply built from the improved text alone; every other level, \<open>"intermediate"\<close>,
  an unrecognized string or \<open>null\<close>, yields the third reply, built from the improved
  text alone.
\<close>

theorem tutor_reply_by_level:
  "strip (message req) \<noteq> [] \<Longrightarrow>
     (level req = Some ''beginner'' \<longrightarrow>
        reply (tutor req pick) =
          reply_beginner (strip (message req)) (fst (basic_improve (strip (message req))))) \<and>
     (level req = Some ''advanced'' \<longrightarrow>
        reply (tutor req pick) = reply_advanced (fst (basic_improve (strip (message req))))) \<and>
     (level req \<noteq> Some ''beginner'' \<and> level req \<noteq> Some ''advanced'' \<longrightarrow>
        reply (tutor req pick) = reply_other (fst (basic_improve (strip (message req))))) \<and>
     level (TutorRequest_of_body msg None) = Some ''beginner''"
  by (simp add: tutor_def tutor_with_def Let_def TutorRequest_of_body_def split: prod.splits)

theorem tutor_reply_by_level_witness:
  "strip (message (TutorRequest_of_body ''hello'' None)) \<noteq> [] \<and>
   reply (tutor (TutorRequest_of_body ''hello'' None) 0) =
     ''You said: 'hello'. Here is a clearer version: 'Hello.'. Well done! Try to use full sentences and simple tenses.'' \<and>
   reply (tutor (TutorRequest_of_body ''hello'' (Some (Some ''advanced''))) 0) =
     ''Your idea is good. A more natural phrasing is: 'Hello.'. Consider adding specific details and varied vocabulary.'' \<and>
   reply (tutor (TutorRequest_of_body ''hello'' (Some (Some ''intermediate''))) 0) =
     ''Nice! You can say: 'Hello.'. Keep practicing your rhythm and pronunciation.'' \<and>
   reply (tutor (TutorRequest_of_body ''hello'' (Some None)) 0) =
     ''Nice! You can say: 'Hello.'. Keep practicing your rhythm and pronunciation.''"
proof -
  let ?b = "TutorRequest_of_body ''hello'' None"
  let ?a = "TutorRequest_of_body ''hello'' (Some (Some ''advanced''))"
  let ?i = "TutorRequest_of_body ''hello'' (Some (Some ''intermediate''))"
  let ?n = "TutorRequest_of_body ''hello'' (Some None)"
  have hb: "strip (message ?b) \<noteq> []" by code_simp
  have ha: "strip (message ?a) \<noteq> []" by code_simp
  have hi: "strip (message ?i) \<noteq> []" by code_simp
  have hn: "strip (message ?n) \<noteq> []" by code_simp
  have m: "strip ''hello'' = ''hello''" "fst (basic_improve ''hello'') = ''Hello.''"
    by code_simp+
  show ?thesis
    using hb tutor_reply_by_level [OF hb, of 0] tutor_reply_by_level [OF ha, of 0]
      tutor_reply_by_level [OF hi, of 0] tutor_reply_by_level [OF hn, of 0]
    by (simp add: TutorRequest_of_body_def m reply_beginner_def reply_advanced_def
        reply_other_def quoted_def)
qed

text \<open>
  C4 as the specification states it fails: an unrecognized level, here \<open>"expert"\<close>,
  does not yield the reply of \<open>"beginner"\<close> but the third one.
\<close>

theorem tutor_reply_unrecognized_counterexample:
  "strip (message \<lparr>message = ''hello'', level = Some ''expert''\<rparr>) \<noteq> [] \<and>
   reply (tutor \<lparr>message = ''hello'', level = Some ''expert''\<rparr> 0) \<noteq>
     reply_beginner ''hello'' (fst (basic_improve ''hello'')) \<and>
   reply (tutor \<lparr>message = ''hello'', level = Some ''expert''\<rparr> 0) =
     reply_other (fst (basic_improve ''hello''))"
  by code_simp

section \<open>Claims about the diagnostic endpoint\<close>

text \<open>
  C9, as the code has it. Whatever the import gives and whatever the environment holds,
  the endpoint returns a response and raises nothing: a missing module, another error
  of the import, a handle that is \<open>None\<close> and an error of the listing each become a
  fixed text in the field \<open>database\<close>, the message of an error cut to 50 characters;
  the field \<open>collections\<close> holds at most 10 names, the first 10 of the listing; and
  each of the two environment variables is reported as set when it is present with a
  value that is not empty, and as not set when it is absent or empty, by one of two
  fixed texts that show nothing of its value.
\<close>

theorem test_database_never_raises:
  "\<exists>r. test_database imp environ = Inr r \<and>
     length (collections r) \<le> 10 \<and>
     database r =
       (case imp of
          ImportRaises (ImportError m) \<Rightarrow>
            cross_mark @ '' Database module not found (run enable-database first)''
        | ImportRaises (Exception m) \<Rightarrow> cross_mark @ '' Error: '' @ take 50 m
        | Imported None \<Rightarrow> warning_sign @ ''  Available but not initialized''
        | Imported (Some db) \<Rightarrow>
            (case list_collection_names db of
               Inl e \<Rightarrow> warning_sign @ ''  Connected but Error: '' @ take 50 (str_exn e)
             | Inr cols \<Rightarrow> check_mark @ '' Connected & Working'')) \<and>
     collections r =
       (case imp of
          Imported (Some db) \<Rightarrow>
            (case list_collection_names db of Inl e \<Rightarrow> [] | Inr cols \<Rightarrow> take 10 cols)
        | _ \<Rightarrow> []) \<and>
     database_url r =
       Some (if getenv environ ''DATABASE_URL'' = None \<or>
                getenv environ ''DATABASE_URL'' = Some []
             then cross_mark @ '' Not Set'' else check_mark @ '' Set'') \<and>
     database_name r =
       Some (if getenv environ ''DATABASE_NAME'' = None \<or>
                getenv environ ''DATABASE_NAME'' = Some []
             then cross_mark @ '' Not Set'' else check_mark @ '' Set'')"
  by (auto simp: test_database_def try_body_def handlers_def probe_handle_def
      initial_response_def set_or_not_def truthy_def str_exn_def Let_def
      split: import_outcome.splits exn.splits option.splits sum.splits)

text \<open>
  C9 as the specification states it fails in its last part: the report does not follow
  presence alone. \<open>DATABASE_URL\<close> present with the empty value is reported as not set,
  and present with the value \<open>x\<close> as set.
\<close>

theorem test_database_presence_counterexample:
  "getenv [(''DATABASE_URL'', '''')] ''DATABASE_URL'' \<noteq> None \<and>
   map_sum id database_url (test_database (Imported None) [(''DATABASE_URL'', '''')]) =
     Inr (Some (cross_mark @ '' Not Set'')) \<and>
   getenv [(''DATABASE_URL'', ''x'')] ''DATABASE_URL'' \<noteq> None \<and>
   map_sum id database_url (test_database (Imported None) [(''DATABASE_URL'', ''x'')]) =
     Inr (Some (check_mark @ '' Set''))"
  by code_simp

end
